theory Spec2Isabelle
  imports Main "HOL-Library.Sublist"
begin

section \<open>The file system seen by CleanSweep\<close>

text \<open>
  \<^verbatim>\<open>app.py\<close> reads and changes the file system through \<^verbatim>\<open>os\<close>, \<^verbatim>\<open>pathlib\<close> and
  \<^verbatim>\<open>shutil\<close>. The file system is a tree of entries. What the operating system allows on
  an entry is recorded on the entry itself, as five independent answers:
  \<^item> \<open>stat_ok\<close>: \<^verbatim>\<open>os.stat\<close> / \<^verbatim>\<open>os.lstat\<close> of the entry succeeds;
  \<^item> \<open>list_ok\<close>: a directory can be opened and listed (\<^verbatim>\<open>os.scandir\<close>, \<^verbatim>\<open>iterdir\<close>);
  \<^item> \<open>chmod_ok\<close>: \<^verbatim>\<open>os.chmod\<close> of the entry succeeds;
  \<^item> \<open>read_only\<close>: the attribute that refuses \<^verbatim>\<open>os.remove\<close> / \<^verbatim>\<open>os.rmdir\<close> until
    \<^verbatim>\<open>os.chmod(path, stat.S_IWRITE)\<close> clears it;
  \<^item> \<open>del_ok\<close>: removing the entry is otherwise permitted (it is not in use, its parent
    can be written).
  A symbolic link carries what it resolves to (\<open>None\<close> when it dangles); of its own
  answers only \<open>read_only\<close> and \<open>del_ok\<close> are consulted, the others belong to what it
  resolves to. The entries of a directory are listed in the order \<^verbatim>\<open>os.scandir\<close> yields
  them.

  A link holds its own copy of what it resolves to. What the program does through a
  link (\<^verbatim>\<open>os.chmod\<close> follows links, a candidate path may be a link) is recorded on that
  copy and not on the entry elsewhere in the tree that the link names, and removing
  that entry leaves the copy. The tree is therefore exact for file systems without
  symbolic links (\<open>no_links\<close> below), and statements about what a pass leaves in place
  are made for those.
\<close>

record perm =
  stat_ok :: bool
  list_ok :: bool
  chmod_ok :: bool
  read_only :: bool
  del_ok :: bool

datatype entry =
    File string nat perm
  | Dir string perm "entry list"
  | Link string perm "entry option"

text \<open>The exceptions the modelled calls raise. All but \<open>TypeError\<close> are \<^verbatim>\<open>OSError\<close>s.\<close>

datatype pyexc =
    FileNotFoundError
  | NotADirectoryError
  | IsADirectoryError
  | PermissionError
  | DirectoryNotEmpty
  | TypeError

definition is_OSError :: "pyexc \<Rightarrow> bool" where
  "is_OSError e = (e \<noteq> TypeError)"

fun entry_name :: "entry \<Rightarrow> string" where
  "entry_name (File nm sz p) = nm"
| "entry_name (Dir nm p es) = nm"
| "entry_name (Link nm p t) = nm"

fun perm_of :: "entry \<Rightarrow> perm" where
  "perm_of (File nm sz p) = p"
| "perm_of (Dir nm p es) = p"
| "perm_of (Link nm p t) = p"



text \<open>Following symbolic links to what they finally denote.\<close>

fun resolve :: "entry \<Rightarrow> entry option" where
  "resolve (Link nm p None) = None"
| "resolve (Link nm p (Some e)) = resolve e"
| "resolve (File nm sz p) = Some (File nm sz p)"
| "resolve (Dir nm p es) = Some (Dir nm p es)"

text \<open>
  \<^verbatim>\<open>DirEntry.is_file(follow_symlinks=False)\<close> and \<^verbatim>\<open>DirEntry.is_dir(follow_symlinks=False)\<close>
  read the kind that the directory listing delivered; the same reading of the kind serves
  \<^verbatim>\<open>S_ISDIR\<close> and \<^verbatim>\<open>S_ISREG\<close> on the result of a \<^verbatim>\<open>stat\<close>.
\<close>

fun entry_is_file :: "entry \<Rightarrow> bool" where
  "entry_is_file (File nm sz p) = True"
| "entry_is_file e = False"

fun entry_is_dir :: "entry \<Rightarrow> bool" where
  "entry_is_dir (Dir nm p es) = True"
| "entry_is_dir e = False"

text \<open>
  \<^verbatim>\<open>os.stat(path)\<close> follows links: the entry it examines, \<^verbatim>\<open>FileNotFoundError\<close> for a
  link that dangles, \<^verbatim>\<open>PermissionError\<close> when the examination is refused.
\<close>

definition os_stat :: "entry \<Rightarrow> pyexc + entry" where
  "os_stat e =
     (case resolve e of
        None \<Rightarrow> Inl FileNotFoundError
      | Some t \<Rightarrow> if stat_ok (perm_of t) then Inr t else Inl PermissionError)"

text \<open>
  \<^verbatim>\<open>
  def exists(self):                      def is_dir(self):
      try:                                   try:
          self.stat()                            return S_ISDIR(self.stat().st_mode)
      except OSError as e:                   except OSError as e:
          if not _ignore_error(e):               if not _ignore_error(e):
              raise                                  raise
          return False                           return False
      return True
  \<close>
  \<^verbatim>\<open>pathlib\<close> of CPython 3.8 to 3.12: \<^verbatim>\<open>Path.exists()\<close>, \<^verbatim>\<open>Path.is_dir()\<close> and
  \<^verbatim>\<open>Path.is_file()\<close> follow links, read the errors of a missing path (\<^verbatim>\<open>ENOENT\<close>,
  \<^verbatim>\<open>ENOTDIR\<close>) as \<open>False\<close> and pass every other error on, a refused examination among them.
  \<^verbatim>\<open>Path.is_symlink()\<close> does the same with \<^verbatim>\<open>lstat\<close>, which examines a link itself; a link is
  examined with what it resolves to, so its own \<^verbatim>\<open>lstat\<close> does not fail.
\<close>

definition ignore_error :: "pyexc \<Rightarrow> bool" where
  "ignore_error x = (x = FileNotFoundError \<or> x = NotADirectoryError)"

definition path_exists :: "entry \<Rightarrow> pyexc + bool" where
  "path_exists e =
     (case os_stat e of
        Inl x \<Rightarrow> if ignore_error x then Inr False else Inl x
      | Inr t \<Rightarrow> Inr True)"

definition is_dir :: "entry \<Rightarrow> pyexc + bool" where
  "is_dir e =
     (case os_stat e of
        Inl x \<Rightarrow> if ignore_error x then Inr False else Inl x
      | Inr t \<Rightarrow> Inr (entry_is_dir t))"

definition is_file :: "entry \<Rightarrow> pyexc + bool" where
  "is_file e =
     (case os_stat e of
        Inl x \<Rightarrow> if ignore_error x then Inr False else Inl x
      | Inr t \<Rightarrow> Inr (entry_is_file t))"

definition is_symlink :: "entry \<Rightarrow> pyexc + bool" where
  "is_symlink e =
     (case e of
        Link nm p t \<Rightarrow> Inr True
      | _ \<Rightarrow> if stat_ok (perm_of e) then Inr False else Inl PermissionError)"

text \<open>
  \<^verbatim>\<open>stat().st_size\<close>, links followed. The program reads the size of a directory
  nowhere (it tests \<^verbatim>\<open>is_dir\<close> first), so that value is immaterial.
\<close>

fun st_size :: "entry \<Rightarrow> nat" where
  "st_size (File nm sz p) = sz"
| "st_size e = 0"

definition stat_size :: "entry \<Rightarrow> pyexc + nat" where
  "stat_size e =
     (case resolve e of
        None \<Rightarrow> Inl FileNotFoundError
      | Some t \<Rightarrow> if stat_ok (perm_of t) then Inr (st_size t) else Inl PermissionError)"

text \<open>\<^verbatim>\<open>os.scandir(path)\<close> and \<^verbatim>\<open>Path.iterdir()\<close>: the listing, links followed.\<close>

fun scandir :: "entry \<Rightarrow> pyexc + entry list" where
  "scandir (Dir nm p es) = (if list_ok p then Inr es else Inl PermissionError)"
| "scandir (File nm sz p) = Inl NotADirectoryError"
| "scandir (Link nm p None) = Inl FileNotFoundError"
| "scandir (Link nm p (Some e)) = scandir e"

section \<open>Size Accountant: \<^verbatim>\<open>get_dir_size\<close>\<close>

text \<open>
  \<^verbatim>\<open>
  def get_dir_size(path):
      total = 0
      try:
          for entry in os.scandir(path):
              try:
                  if entry.is_file(follow_symlinks=False):
                      total += entry.stat().st_size
                  elif entry.is_dir(follow_symlinks=False):
                      total += get_dir_size(entry.path)
              except (PermissionError, OSError):
                  pass
      except (PermissionError, OSError):
          pass
      return total
  \<close>
  \<open>get_dir_size_loop\<close> is the \<^verbatim>\<open>for\<close> loop with its accumulator \<^verbatim>\<open>total\<close> (here \<open>tot\<close>). An exception
  that is no \<^verbatim>\<open>OSError\<close> would leave both \<^verbatim>\<open>try\<close> blocks and is returned as \<open>Inl\<close>.
\<close>

lemma scandir_smaller:
  "scandir d = Inr es \<Longrightarrow> size_list size es < size d"
  by (induction d rule: scandir.induct) (auto split: if_splits)

function get_dir_size :: "entry \<Rightarrow> pyexc + nat"
  and get_dir_size_loop :: "entry list \<Rightarrow> nat \<Rightarrow> pyexc + nat"
where
  "get_dir_size path =
     (case scandir path of
        Inl e \<Rightarrow> if is_OSError e then Inr 0 else Inl e
      | Inr entries \<Rightarrow> get_dir_size_loop entries 0)"
| "get_dir_size_loop [] tot = Inr tot"
| "get_dir_size_loop (entry # entries) tot =
     (case (if entry_is_file entry then
              (case stat_size entry of Inl e \<Rightarrow> Inl e | Inr sz \<Rightarrow> Inr (tot + sz))
            else if entry_is_dir entry then
              (case get_dir_size entry of Inl e \<Rightarrow> Inl e | Inr n \<Rightarrow> Inr (tot + n))
            else Inr tot)
      of
        Inl e \<Rightarrow> if is_OSError e then get_dir_size_loop entries tot else Inl e
      | Inr tot1 \<Rightarrow> get_dir_size_loop entries tot1)"
  by pat_completeness auto
termination
  by (relation "measure (\<lambda>x. case x of Inl d \<Rightarrow> 2 * size d | Inr (es, t) \<Rightarrow> 2 * size_list size es + 1)")
     (auto dest: scandir_smaller)

declare get_dir_size.simps [simp del]

text \<open>
  The specification's reading: the regular files reached from an entry without
  following symbolic links, leaving out a directory that cannot be listed and a file
  that cannot be examined.
\<close>

primrec readable_files :: "entry \<Rightarrow> nat list" where
  "readable_files (File nm sz p) = (if stat_ok p then [sz] else [])"
| "readable_files (Dir nm p es) = (if list_ok p then concat (map readable_files es) else [])"
| "readable_files (Link nm p t) = []"


section \<open>Forced Removal: \<^verbatim>\<open>force_remove\<close>\<close>

text \<open>\<^verbatim>\<open>os.chmod(path, stat.S_IWRITE)\<close> follows links and clears the read-only attribute.\<close>

fun os_chmod :: "entry \<Rightarrow> pyexc + entry" where
  "os_chmod (File nm sz p) =
     (if chmod_ok p then Inr (File nm sz (p\<lparr>read_only := False\<rparr>)) else Inl PermissionError)"
| "os_chmod (Dir nm p es) =
     (if chmod_ok p then Inr (Dir nm (p\<lparr>read_only := False\<rparr>) es) else Inl PermissionError)"
| "os_chmod (Link nm p None) = Inl FileNotFoundError"
| "os_chmod (Link nm p (Some t)) =
     (case os_chmod t of Inl x \<Rightarrow> Inl x | Inr t1 \<Rightarrow> Inr (Link nm p (Some t1)))"

text \<open>\<^verbatim>\<open>os.remove\<close> / \<^verbatim>\<open>os.unlink\<close> act on the entry itself, \<^verbatim>\<open>os.rmdir\<close> on an empty directory.\<close>

fun os_remove :: "entry \<Rightarrow> pyexc + unit" where
  "os_remove (Dir nm p es) = Inl IsADirectoryError"
| "os_remove e =
     (if \<not> read_only (perm_of e) \<and> del_ok (perm_of e) then Inr () else Inl PermissionError)"

fun os_rmdir :: "entry \<Rightarrow> pyexc + unit" where
  "os_rmdir (Dir nm p es) =
     (if es \<noteq> [] then Inl DirectoryNotEmpty
      else if \<not> read_only p \<and> del_ok p then Inr () else Inl PermissionError)"
| "os_rmdir e = Inl NotADirectoryError"

text \<open>
  \<^verbatim>\<open>
  def onerror(func, path, exc_info):
      try:
          os.chmod(path, stat.S_IWRITE)
          func(path)
      except Exception:
          pass
  \<close>
  \<^verbatim>\<open>shutil.rmtree\<close> hands the handler the call that failed. \<open>retry\<close> is \<^verbatim>\<open>func(path)\<close>
  with that single argument; \<open>onerror\<close> returns what is left at \<^verbatim>\<open>path\<close>.
\<close>

datatype os_func = Os_lstat | Os_open | Os_scandir | Os_unlink | Os_rmdir

fun retry :: "os_func \<Rightarrow> entry \<Rightarrow> pyexc + entry option" where
  "retry Os_unlink e = (case os_remove e of Inl x \<Rightarrow> Inl x | Inr u \<Rightarrow> Inr None)"
| "retry Os_rmdir e = (case os_rmdir e of Inl x \<Rightarrow> Inl x | Inr u \<Rightarrow> Inr None)"
| "retry Os_open e = Inl TypeError"
| "retry Os_scandir e = (case scandir e of Inl x \<Rightarrow> Inl x | Inr es \<Rightarrow> Inr (Some e))"
| "retry Os_lstat e = (if stat_ok (perm_of e) then Inr (Some e) else Inl PermissionError)"

definition onerror :: "os_func \<Rightarrow> entry \<Rightarrow> entry option" where
  "onerror func e =
     (case os_chmod e of
        Inl x \<Rightarrow> Some e
      | Inr e1 \<Rightarrow> (case retry func e1 of Inl x \<Rightarrow> Some e1 | Inr r \<Rightarrow> r))"

text \<open>
  \<^verbatim>\<open>shutil.rmtree(path, onerror=onerror)\<close>, after the standard library of CPython 3.8
  to 3.12. \<open>fd\<close> is the library's \<^verbatim>\<open>_use_fd_functions\<close> (true on Linux and macOS, false on
  Windows): with it a directory that cannot be examined or opened is reported to the
  handler and left; without it the listing is taken as empty and \<^verbatim>\<open>os.rmdir\<close> is still
  tried. Every failure goes to the handler, which raises nothing, so \<open>rmtree\<close> returns
  what is left of the tree (\<open>None\<close> when it is gone) and never an exception.
\<close>

definition rmdir_step :: "entry \<Rightarrow> entry option" where
  "rmdir_step d = (case os_rmdir d of Inr u \<Rightarrow> None | Inl x \<Rightarrow> onerror Os_rmdir d)"

definition unlink_step :: "entry \<Rightarrow> entry option" where
  "unlink_step e = (case os_remove e of Inr u \<Rightarrow> None | Inl x \<Rightarrow> onerror Os_unlink e)"

fun keep :: "entry option \<Rightarrow> entry list \<Rightarrow> entry list" where
  "keep None es = es"
| "keep (Some e) es = e # es"

fun rmtree :: "bool \<Rightarrow> entry \<Rightarrow> entry option"
  and rmtree_entries :: "bool \<Rightarrow> entry list \<Rightarrow> entry list"
where
  "rmtree fd (Dir nm p es) =
     (if fd \<and> \<not> stat_ok p then onerror Os_lstat (Dir nm p es)
      else if \<not> list_ok p then
        (if fd then onerror Os_open (Dir nm p es)
         else (case onerror Os_scandir (Dir nm p es) of None \<Rightarrow> None | Some d \<Rightarrow> rmdir_step d))
      else rmdir_step (Dir nm p (rmtree_entries fd es)))"
| "rmtree fd (File nm sz p) = Some (File nm sz p)"
| "rmtree fd (Link nm p t) = Some (Link nm p t)"
| "rmtree_entries fd [] = []"
| "rmtree_entries fd (e # es) =
     keep (if entry_is_dir e then rmtree fd e else unlink_step e) (rmtree_entries fd es)"

text \<open>
  \<^verbatim>\<open>
  def force_remove(path):
      try:
          p = Path(path)
          if p.is_file() or p.is_symlink():
              os.chmod(path, stat.S_IWRITE)
              os.remove(path)
              return True
          elif p.is_dir():
              shutil.rmtree(path, onerror=onerror)
              return True
      except Exception:
          pass
      return False
  \<close>
  The argument is what \<^verbatim>\<open>path\<close> denotes (\<open>None\<close>: nothing is there); the result is the
  returned value, or the exception that leaves the function, and what is at \<^verbatim>\<open>path\<close>
  afterwards. \<open>force_remove_try\<close> is the \<^verbatim>\<open>try\<close> block; \<^verbatim>\<open>or\<close> tests \<^verbatim>\<open>is_symlink\<close> only
  when \<^verbatim>\<open>is_file\<close> answered \<open>False\<close>, and an error raised by one of the tests leaves the
  block like any other. \<^verbatim>\<open>rmtree\<close> is reached only for a directory that is no link, the
  two cases its model leaves untouched.
\<close>

definition force_remove_try :: "bool \<Rightarrow> entry \<Rightarrow> (pyexc + bool) \<times> entry option" where
  "force_remove_try fd e =
     (case is_file e of
        Inl x \<Rightarrow> (Inl x, Some e)
      | Inr f \<Rightarrow>
          (case (if f then Inr True else is_symlink e) of
             Inl x \<Rightarrow> (Inl x, Some e)
           | Inr file_or_link \<Rightarrow>
               if file_or_link then
                 (case os_chmod e of
                    Inl x \<Rightarrow> (Inl x, Some e)
                  | Inr e1 \<Rightarrow>
                      (case os_remove e1 of
                         Inl x \<Rightarrow> (Inl x, Some e1)
                       | Inr u \<Rightarrow> (Inr True, None)))
               else
                 (case is_dir e of
                    Inl x \<Rightarrow> (Inl x, Some e)
                  | Inr d \<Rightarrow> if d then (Inr True, rmtree fd e) else (Inr False, Some e))))"

definition force_remove :: "bool \<Rightarrow> entry option \<Rightarrow> (pyexc + bool) \<times> entry option" where
  "force_remove fd path =
     (case path of
        None \<Rightarrow> (Inr False, None)
      | Some e \<Rightarrow>
          (case force_remove_try fd e of
             (Inl x, s) \<Rightarrow> (Inr False, s)
           | (Inr b, s) \<Rightarrow> (Inr b, s)))"

section \<open>Clean Engine: \<^verbatim>\<open>clean_directory_contents\<close>\<close>

text \<open>
  \<^verbatim>\<open>
  def clean_directory_contents(directory, delete_subfolders=True):
      freed = 0
      errors = 0
      items_removed = 0
      d = Path(directory)
      if not d.exists():
          return 0, 0, 0
      try:
          for item in d.iterdir():
              try:
                  item_size = get_dir_size(item) if item.is_dir() else item.stat().st_size
                  if item.is_dir() and delete_subfolders:
                      if force_remove(str(item)):
                          freed += item_size
                          items_removed += 1
                      else:
                          errors += 1
                  elif item.is_file():
                      if force_remove(str(item)):
                          freed += item_size
                          items_removed += 1
                      else:
                          errors += 1
              except (PermissionError, OSError):
                  errors += 1
      except (PermissionError, OSError):
          errors += 1
      return freed, errors, items_removed
  \<close>
  The counters are the triple \<open>(freed, errors, items_removed)\<close>, in the order of the
  \<^verbatim>\<open>return\<close>. \<open>clean_item\<close> is the inner \<^verbatim>\<open>try\<close> block for one item, \<open>clean_loop\<close> the
  \<^verbatim>\<open>for\<close> loop over the listing taken when the loop starts; both return what is left
  of the items they handled. \<^verbatim>\<open>d.exists()\<close> stands before the \<^verbatim>\<open>try\<close>: an error it passes
  on leaves the function.
\<close>

type_synonym counters = "nat \<times> nat \<times> nat"

definition count_removal ::
  "(pyexc + bool) \<times> entry option \<Rightarrow> nat \<Rightarrow> counters \<Rightarrow> (pyexc + counters) \<times> entry option" where
  "count_removal r item_size c =
     (case c of (freed, errors, items_removed) \<Rightarrow>
        (case r of
           (Inl x, s) \<Rightarrow> (Inl x, s)
         | (Inr ok, s) \<Rightarrow>
             if ok then (Inr (freed + item_size, errors, items_removed + 1), s)
             else (Inr (freed, errors + 1, items_removed), s)))"

definition clean_item ::
  "bool \<Rightarrow> bool \<Rightarrow> entry \<Rightarrow> counters \<Rightarrow> (pyexc + counters) \<times> entry option" where
  "clean_item fd delete_subfolders item c =
     (case is_dir item of
        Inl x \<Rightarrow> (Inl x, Some item)
      | Inr d \<Rightarrow>
          (case (if d then get_dir_size item else stat_size item) of
             Inl x \<Rightarrow> (Inl x, Some item)
           | Inr item_size \<Rightarrow>
               (case is_dir item of
                  Inl x \<Rightarrow> (Inl x, Some item)
                | Inr d1 \<Rightarrow>
                    if d1 \<and> delete_subfolders then
                      count_removal (force_remove fd (Some item)) item_size c
                    else
                      (case is_file item of
                         Inl x \<Rightarrow> (Inl x, Some item)
                       | Inr f \<Rightarrow>
                           if f then count_removal (force_remove fd (Some item)) item_size c
                           else (Inr c, Some item)))))"

fun clean_loop ::
  "bool \<Rightarrow> bool \<Rightarrow> entry list \<Rightarrow> counters \<Rightarrow> (pyexc + counters) \<times> entry list" where
  "clean_loop fd ds [] c = (Inr c, [])"
| "clean_loop fd ds (item # items) c =
     (case clean_item fd ds item c of
        (Inl x, s) \<Rightarrow>
          if is_OSError x then
            (case c of (freed, errors, items_removed) \<Rightarrow>
               (case clean_loop fd ds items (freed, errors + 1, items_removed) of
                  (r, rest) \<Rightarrow> (r, keep s rest)))
          else (Inl x, keep s items)
      | (Inr c1, s) \<Rightarrow>
          (case clean_loop fd ds items c1 of (r, rest) \<Rightarrow> (r, keep s rest)))"

text \<open>Writing the remaining items back into the directory the path denotes.\<close>

fun put_entries :: "entry \<Rightarrow> entry list \<Rightarrow> entry" where
  "put_entries (Dir nm p es) es1 = Dir nm p es1"
| "put_entries (Link nm p (Some t)) es1 = Link nm p (Some (put_entries t es1))"
| "put_entries e es1 = e"

definition clean_directory_contents ::
  "bool \<Rightarrow> entry option \<Rightarrow> bool \<Rightarrow> (pyexc + counters) \<times> entry option" where
  "clean_directory_contents fd directory delete_subfolders =
     (case directory of
        None \<Rightarrow> (Inr (0, 0, 0), None)
      | Some d \<Rightarrow>
          (case path_exists d of
             Inl x \<Rightarrow> (Inl x, Some d)
           | Inr ex \<Rightarrow>
               if \<not> ex then (Inr (0, 0, 0), Some d)
               else
                 (case scandir d of
                    Inl x \<Rightarrow> if is_OSError x then (Inr (0, 1, 0), Some d) else (Inl x, Some d)
                  | Inr items \<Rightarrow>
                      (case clean_loop fd delete_subfolders items (0, 0, 0) of
                         (r, rest) \<Rightarrow> (r, Some (put_entries d rest))))))"


section \<open>Paths\<close>

text \<open>
  A path is the list of its components below the root of the tree; \<open>lookup\<close> descends
  through directories, taking the first entry of each name. A link can be the last
  component of a path, it is not traversed in the middle of one, and names are compared
  letter for letter: two paths denote the same entry only when they are equal, which is
  so in a file system without links that distinguishes case. \<open>store\<close> puts an entry in
  the place \<open>lookup\<close> finds.
\<close>

type_synonym fspath = "string list"

fun find_entry :: "string \<Rightarrow> entry list \<Rightarrow> entry option" where
  "find_entry c [] = None"
| "find_entry c (e # es) = (if entry_name e = c then Some e else find_entry c es)"

fun lookup :: "entry \<Rightarrow> fspath \<Rightarrow> entry option" where
  "lookup e [] = Some e"
| "lookup (Dir nm p es) (c # cs) =
     (case find_entry c es of None \<Rightarrow> None | Some k \<Rightarrow> lookup k cs)"
| "lookup e (c # cs) = None"

fun store :: "entry \<Rightarrow> fspath \<Rightarrow> entry \<Rightarrow> entry"
  and store_in :: "entry list \<Rightarrow> string \<Rightarrow> fspath \<Rightarrow> entry \<Rightarrow> entry list"
where
  "store e [] e1 = e1"
| "store (Dir nm p es) (c # cs) e1 = Dir nm p (store_in es c cs e1)"
| "store (File nm sz p) (c # cs) e1 = File nm sz p"
| "store (Link nm p t) (c # cs) e1 = Link nm p t"
| "store_in [] c cs e1 = []"
| "store_in (k # ks) c cs e1 =
     (if entry_name k = c then store k cs e1 # ks else k # store_in ks c cs e1)"

definition exists_at :: "entry \<Rightarrow> fspath \<Rightarrow> pyexc + bool" where
  "exists_at fs p = (case lookup fs p of None \<Rightarrow> Inr False | Some d \<Rightarrow> path_exists d)"

definition is_dir_at :: "entry \<Rightarrow> fspath \<Rightarrow> pyexc + bool" where
  "is_dir_at fs p = (case lookup fs p of None \<Rightarrow> Inr False | Some d \<Rightarrow> is_dir d)"

text \<open>A path whose examination is refused: \<^verbatim>\<open>Path(p).exists()\<close> raises.\<close>

definition refused :: "entry \<Rightarrow> fspath \<Rightarrow> bool" where
  "refused fs p = (case exists_at fs p of Inl x \<Rightarrow> True | Inr ex \<Rightarrow> False)"

definition clean_at :: "bool \<Rightarrow> entry \<Rightarrow> fspath \<Rightarrow> (pyexc + counters) \<times> entry" where
  "clean_at fd fs p =
     (case clean_directory_contents fd (lookup fs p) True of
        (r, None) \<Rightarrow> (r, fs)
      | (r, Some d1) \<Rightarrow> (r, store fs p d1))"

section \<open>Path Catalog: \<^verbatim>\<open>get_clean_targets\<close>\<close>

text \<open>
  The dictionary is the list of its items in insertion order. \<open>os\<close> is the global
  \<^verbatim>\<open>OS = platform.system()\<close>, \<open>home\<close> is \<^verbatim>\<open>Path.home()\<close>, \<open>env\<close> is \<^verbatim>\<open>os.environ\<close> with
  its values read as paths.
\<close>

type_synonym targets = "(string \<times> fspath list) list"

definition env_path :: "(string \<Rightarrow> fspath option) \<Rightarrow> string \<Rightarrow> fspath \<Rightarrow> fspath" where
  "env_path env var dflt = (case env var of None \<Rightarrow> dflt | Some v \<Rightarrow> v)"

text \<open>
  \<^verbatim>\<open>list(root.glob("*/cache2")) if root.exists() else []\<close>: the directories listed in
  \<open>root\<close> that hold an entry \<^verbatim>\<open>cache2\<close>. The glob swallows the errors of its own listings
  and tests; \<^verbatim>\<open>root.exists()\<close> passes its error on.
\<close>

definition glob_cache2 :: "entry \<Rightarrow> fspath \<Rightarrow> pyexc + fspath list" where
  "glob_cache2 fs root =
     (case exists_at fs root of
        Inl x \<Rightarrow> Inl x
      | Inr ex \<Rightarrow>
          if ex then
            Inr (case lookup fs root of
                   None \<Rightarrow> []
                 | Some d \<Rightarrow>
                     (case scandir d of
                        Inl x \<Rightarrow> []
                      | Inr es \<Rightarrow>
                          map (\<lambda>e. root @ [entry_name e, ''cache2''])
                            (filter (\<lambda>e. is_dir e = Inr True \<and> exists_at e [''cache2''] = Inr True)
                               es)))
          else Inr [])"

text \<open>
  The entries of the dictionary display are evaluated in order; all but \<open>Firefox Cache\<close>
  build paths and cannot fail, so the result is the error of that entry or the
  dictionary.
\<close>

definition get_clean_targets ::
  "string \<Rightarrow> fspath \<Rightarrow> (string \<Rightarrow> fspath option) \<Rightarrow> entry \<Rightarrow> pyexc + targets" where
  "get_clean_targets os home env fs =
     (if os = ''Windows'' then
        (let windir = env_path env ''WINDIR'' [''C:'', ''Windows''];
             localappdata = env_path env ''LOCALAPPDATA'' (home @ [''AppData'', ''Local'']);
             appdata = env_path env ''APPDATA'' (home @ [''AppData'', ''Roaming'']);
             temp = env_path env ''TEMP'' (localappdata @ [''Temp''])
         in
          case glob_cache2 fs (localappdata @ [''Mozilla'', ''Firefox'', ''Profiles'']) of
            Inl x \<Rightarrow> Inl x
          | Inr firefox \<Rightarrow> Inr
          [(''User Temp Files'', [temp]),
           (''Windows Temp'', [windir @ [''Temp'']]),
           (''Prefetch'', [windir @ [''Prefetch'']]),
           (''Recent Files'', [appdata @ [''Microsoft'', ''Windows'', ''Recent'']]),
           (''Thumbnail Cache'', [localappdata @ [''Microsoft'', ''Windows'', ''Explorer'']]),
           (''Windows Error Reports'',
              [localappdata @ [''Microsoft'', ''Windows'', ''WER''],
               [''C:'', ''ProgramData'', ''Microsoft'', ''Windows'', ''WER'']]),
           (''Windows Update Cache'', [[''C:'', ''Windows'', ''SoftwareDistribution'', ''Download'']]),
           (''DirectX Shader Cache'', [localappdata @ [''D3DSCache'']]),
           (''Chrome Cache'',
              [localappdata @ [''Google'', ''Chrome'', ''User Data'', ''Default'', ''Cache''],
               localappdata @ [''Google'', ''Chrome'', ''User Data'', ''Default'', ''Code Cache''],
               localappdata @ [''Google'', ''Chrome'', ''User Data'', ''Default'', ''GPUCache'']]),
           (''Edge Cache'',
              [localappdata @ [''Microsoft'', ''Edge'', ''User Data'', ''Default'', ''Cache''],
               localappdata @ [''Microsoft'', ''Edge'', ''User Data'', ''Default'', ''Code Cache'']]),
           (''Firefox Cache'', firefox),
           (''Teams Cache'', [localappdata @ [''Microsoft'', ''Teams'', ''Cache'']]),
           (''Discord Cache'',
              [appdata @ [''discord'', ''Cache''], appdata @ [''discord'', ''Code Cache'']]),
           (''Spotify Cache'', [localappdata @ [''Spotify'', ''Data'']]),
           (''Log Files'', [windir @ [''Logs'']]),
           (''Crash Dumps'', [localappdata @ [''CrashDumps'']]),
           (''Font Cache'', [localappdata @ [''FontCache'']])])
      else if os = ''Darwin'' then
        Inr
        [(''User Cache'', [home @ [''Library'', ''Caches'']]),
         (''System Log Files'', [[''var'', ''log'']]),
         (''User Log Files'', [home @ [''Library'', ''Logs'']]),
         (''Temporary Files'', [[''tmp''], [''var'', ''tmp'']]),
         (''Chrome Cache'', [home @ [''Library'', ''Caches'', ''Google'', ''Chrome'']]),
         (''Firefox Cache'', [home @ [''Library'', ''Caches'', ''Firefox'']]),
         (''Safari Cache'', [home @ [''Library'', ''Caches'', ''com.apple.Safari'']]),
         (''Trash'', [home @ [''.Trash'']]),
         (''iOS Device Backups'',
            [home @ [''Library'', ''Application Support'', ''MobileSync'', ''Backup'']]),
         (''Xcode Cache'', [home @ [''Library'', ''Developer'', ''Xcode'', ''DerivedData'']]),
         (''pip Cache'', [home @ [''Library'', ''Caches'', ''pip'']])]
      else
        (case glob_cache2 fs (home @ [''.mozilla'', ''firefox'']) of
          Inl x \<Rightarrow> Inl x
        | Inr firefox \<Rightarrow> Inr
        [(''User Cache'', [home @ [''.cache'']]),
         (''Temporary Files'', [[''tmp''], [''var'', ''tmp'']]),
         (''System Logs'', [[''var'', ''log'']]),
         (''User Logs'', [home @ [''.local'', ''share'', ''recently-used.xbel'']]),
         (''Thumbnail Cache'', [home @ [''.cache'', ''thumbnails'']]),
         (''Chrome Cache'',
            [home @ [''.cache'', ''google-chrome''],
             home @ [''.config'', ''google-chrome'', ''Default'', ''Cache'']]),
         (''Firefox Cache'', firefox),
         (''pip Cache'', [home @ [''.cache'', ''pip'']]),
         (''apt Cache'', [[''var'', ''cache'', ''apt'', ''archives'']]),
         (''npm Cache'', [home @ [''.npm'', ''_cacache'']]),
         (''Trash'', [home @ [''.local'', ''share'', ''Trash'']]),
         (''Coredumps'',
            [[''var'', ''crash''], home @ [''.local'', ''share'', ''apport'', ''coredump'']])]))"

section \<open>Scan Engine: \<^verbatim>\<open>scan\<close>\<close>

text \<open>
  \<^verbatim>\<open>
  for category, paths in targets.items():
      cat_size = 0
      exists = False
      for p in paths:
          pp = Path(p)
          if pp.exists():
              exists = True
              cat_size += get_dir_size(str(pp))
      if exists:
          total_size += cat_size
          results.append({"category": category, "size": cat_size, ..., "paths": ...})
  results.sort(key=lambda x: x["size"], reverse=True)
  return jsonify({"total": total_size, ..., "categories": results, "os": OS})
  \<close>
  The two \<^verbatim>\<open>_human\<close> strings, floating-point renderings of the sizes beside them, are
  left out of the records. \<^verbatim>\<open>list.sort\<close> is stable, also with \<^verbatim>\<open>reverse=True\<close>: it is
  the stable sort on the negated key.
\<close>

record scan_result =
  sr_category :: string
  sr_size :: nat
  sr_paths :: "fspath list"

record report =
  rp_total :: nat
  rp_categories :: "scan_result list"
  rp_os :: string

fun scan_paths :: "entry \<Rightarrow> fspath list \<Rightarrow> nat \<times> bool \<Rightarrow> pyexc + nat \<times> bool" where
  "scan_paths fs [] acc = Inr acc"
| "scan_paths fs (p # ps) acc =
     (case lookup fs p of
        None \<Rightarrow> scan_paths fs ps acc
      | Some pp \<Rightarrow>
          (case path_exists pp of
             Inl x \<Rightarrow> Inl x
           | Inr ex \<Rightarrow>
               if ex then
                 (case get_dir_size pp of
                    Inl x \<Rightarrow> Inl x
                  | Inr n \<Rightarrow> scan_paths fs ps (fst acc + n, True))
               else scan_paths fs ps acc))"

fun scan_categories ::
  "entry \<Rightarrow> targets \<Rightarrow> scan_result list \<times> nat \<Rightarrow> pyexc + scan_result list \<times> nat" where
  "scan_categories fs [] acc = Inr acc"
| "scan_categories fs ((category, paths) # rest) acc =
     (case scan_paths fs paths (0, False) of
        Inl x \<Rightarrow> Inl x
      | Inr (cat_size, exists) \<Rightarrow>
          if exists then
            scan_categories fs rest
              (fst acc @ [\<lparr>sr_category = category, sr_size = cat_size, sr_paths = paths\<rparr>],
               snd acc + cat_size)
          else scan_categories fs rest acc)"

definition sort_by_size_desc :: "scan_result list \<Rightarrow> scan_result list" where
  "sort_by_size_desc results = sort_key (\<lambda>x. - int (sr_size x)) results"

definition scan_targets :: "string \<Rightarrow> targets \<Rightarrow> entry \<Rightarrow> pyexc + report" where
  "scan_targets os targets fs =
     (case scan_categories fs targets ([], 0) of
        Inl x \<Rightarrow> Inl x
      | Inr (results, total_size) \<Rightarrow>
          Inr \<lparr>rp_total = total_size, rp_categories = sort_by_size_desc results, rp_os = os\<rparr>)"

definition scan ::
  "string \<Rightarrow> fspath \<Rightarrow> (string \<Rightarrow> fspath option) \<Rightarrow> entry \<Rightarrow> pyexc + report" where
  "scan os home env fs =
     (case get_clean_targets os home env fs of
        Inl x \<Rightarrow> Inl x
      | Inr targets \<Rightarrow> scan_targets os targets fs)"

text \<open>
  The specification's reading of the report: a category is included when one of its
  candidate paths exists, in catalog order, with the sum of the sizes of its existing
  paths.
\<close>

definition spec_path_size :: "entry \<Rightarrow> fspath \<Rightarrow> nat" where
  "spec_path_size fs p =
     (case lookup fs p of
        None \<Rightarrow> 0
      | Some d \<Rightarrow> (case get_dir_size d of Inl x \<Rightarrow> 0 | Inr n \<Rightarrow> n))"

definition spec_category_size :: "entry \<Rightarrow> fspath list \<Rightarrow> nat" where
  "spec_category_size fs ps =
     sum_list (map (spec_path_size fs) (filter (\<lambda>p. exists_at fs p = Inr True) ps))"

definition spec_included :: "entry \<Rightarrow> targets \<Rightarrow> targets" where
  "spec_included fs targets =
     filter (\<lambda>t. list_ex (\<lambda>p. exists_at fs p = Inr True) (snd t)) targets"

definition spec_results :: "entry \<Rightarrow> targets \<Rightarrow> scan_result list" where
  "spec_results fs targets =
     map (\<lambda>t. \<lparr>sr_category = fst t, sr_size = spec_category_size fs (snd t), sr_paths = snd t\<rparr>)
       (spec_included fs targets)"

section \<open>Clean Engine: the event stream of \<^verbatim>\<open>clean\<close>\<close>

text \<open>
  \<^verbatim>\<open>
  for category, paths in targets.items():
      freed = 0; errors = 0; items = 0
      for p in paths:
          pp = Path(p)
          if pp.exists():
              f, e, i = clean_directory_contents(str(pp))
              freed += f; errors += e; items += i
      total_freed += freed
      total_errors += errors
      yield {"category": category, "freed": freed, ..., "items": items, "errors": errors}
  # Extra OS-specific cleanup, each in try/except Exception: pass
  yield {"done": True, "total_freed": total_freed, ..., "errors": total_errors}
  \<close>
  Events are listed in the order they are yielded. A generator that an exception
  leaves has yielded the events so far; the exception is the second component of the
  result. \<open>runs a\<close> says that maintenance action \<open>a\<close> returned without raising.
\<close>

datatype event =
    CleanEvent (ev_category: string) (ev_freed: nat) (ev_items: nat) (ev_errors: nat)
  | DoneEvent (done_total_freed: nat) (done_errors: nat)

datatype maint = FlushDNS | EmptyRecycleBin | SyncBuffers

text \<open>The terminal event is the one that carries \<^verbatim>\<open>"done": True\<close>.\<close>

fun is_done :: "event \<Rightarrow> bool" where
  "is_done (DoneEvent tf te) = True"
| "is_done (CleanEvent c f i e) = False"

fun clean_paths ::
  "bool \<Rightarrow> entry \<Rightarrow> fspath list \<Rightarrow> counters \<Rightarrow> (pyexc + counters) \<times> entry" where
  "clean_paths fd fs [] c = (Inr c, fs)"
| "clean_paths fd fs (p # ps) c =
     (case exists_at fs p of
        Inl x \<Rightarrow> (Inl x, fs)
      | Inr ex \<Rightarrow>
          if ex then
            (case clean_at fd fs p of
               (Inl x, fs1) \<Rightarrow> (Inl x, fs1)
             | (Inr (f, e, i), fs1) \<Rightarrow>
                 (case c of (freed, errors, items) \<Rightarrow>
                    clean_paths fd fs1 ps (freed + f, errors + e, items + i)))
          else clean_paths fd fs ps c)"

fun clean_categories ::
  "bool \<Rightarrow> entry \<Rightarrow> targets \<Rightarrow> nat \<times> nat \<Rightarrow> event list \<times> (pyexc + nat \<times> nat) \<times> entry" where
  "clean_categories fd fs [] tot = ([], Inr tot, fs)"
| "clean_categories fd fs ((category, paths) # rest) tot =
     (case clean_paths fd fs paths (0, 0, 0) of
        (Inl x, fs1) \<Rightarrow> ([], Inl x, fs1)
      | (Inr (freed, errors, items), fs1) \<Rightarrow>
          (case clean_categories fd fs1 rest (fst tot + freed, snd tot + errors) of
             (evs, r, fs2) \<Rightarrow> (CleanEvent category freed items errors # evs, r, fs2)))"

definition maintenance :: "string \<Rightarrow> (maint \<Rightarrow> bool) \<Rightarrow> event list" where
  "maintenance os runs =
     (if os = ''Windows'' then
        (if runs FlushDNS then [CleanEvent ''DNS Cache'' 0 1 0] else []) @
        (if runs EmptyRecycleBin then [CleanEvent ''Recycle Bin'' 0 1 0] else [])
      else if os = ''Darwin'' then
        (if runs FlushDNS then [CleanEvent ''DNS Cache'' 0 1 0] else [])
      else if os = ''Linux'' then
        (if runs SyncBuffers then [CleanEvent ''Sync Disk Buffers'' 0 1 0] else [])
      else [])"

definition generate ::
  "bool \<Rightarrow> string \<Rightarrow> (maint \<Rightarrow> bool) \<Rightarrow> targets \<Rightarrow> entry \<Rightarrow> event list \<times> pyexc option \<times> entry" where
  "generate fd os runs targets fs =
     (case clean_categories fd fs targets (0, 0) of
        (evs, Inl x, fs1) \<Rightarrow> (evs, Some x, fs1)
      | (evs, Inr (total_freed, total_errors), fs1) \<Rightarrow>
          (evs @ maintenance os runs @ [DoneEvent total_freed total_errors], None, fs1))"

definition clean ::
  "bool \<Rightarrow> string \<Rightarrow> (maint \<Rightarrow> bool) \<Rightarrow> fspath \<Rightarrow> (string \<Rightarrow> fspath option) \<Rightarrow> entry
   \<Rightarrow> event list \<times> pyexc option \<times> entry" where
  "clean fd os runs home env fs =
     (case get_clean_targets os home env fs of
        Inl x \<Rightarrow> ([], Some x, fs)
      | Inr targets \<Rightarrow> generate fd os runs targets fs)"


section \<open>Example file systems\<close>

text \<open>An entry on which every operation is permitted.\<close>

definition p_ok :: perm where
  "p_ok = \<lparr>stat_ok = True, list_ok = True, chmod_ok = True, read_only = False, del_ok = True\<rparr>"

text \<open>
  A home directory \<^verbatim>\<open>/home/u\<close> that holds the regular file
  \<^verbatim>\<open>.local/share/recently-used.xbel\<close>, the candidate of the Linux category \<open>User Logs\<close>.
\<close>

definition fs_xbel :: entry where
  "fs_xbel =
     Dir [] p_ok
       [Dir ''home'' p_ok
          [Dir ''u'' p_ok
             [Dir ''.local'' p_ok
                [Dir ''share'' p_ok [File ''recently-used.xbel'' 2048 p_ok]]]]]"

text \<open>
  The directory \<^verbatim>\<open>/tmp/x\<close> with three regular files of 500, 400 and 600 bytes and a
  subdirectory \<^verbatim>\<open>locked\<close> that cannot be opened and is not empty.
\<close>

definition fs_locked :: entry where
  "fs_locked =
     Dir [] p_ok
       [Dir ''tmp'' p_ok
          [Dir ''x'' p_ok
             [File ''a'' 500 p_ok, File ''b'' 400 p_ok, File ''c'' 600 p_ok,
              Dir ''locked'' (p_ok\<lparr>list_ok := False\<rparr>) [File ''secret'' 42 p_ok]]]]"

text \<open>
  A home directory \<^verbatim>\<open>/home/u\<close> with documents and a cache that holds thumbnails, and a
  file system on which the home directory is \<^verbatim>\<open>/tmp\<close>.
\<close>

definition fs_cache :: entry where
  "fs_cache =
     Dir [] p_ok
       [Dir ''home'' p_ok
          [Dir ''u'' p_ok
             [Dir ''docs'' p_ok [File ''thesis'' 1000 p_ok],
              Dir ''.cache'' p_ok
                [Dir ''thumbnails'' p_ok [File ''t.png'' 300 p_ok],
                 File ''log'' 20 p_ok]]]]"


text \<open>The Linux catalog of the home directory \<^verbatim>\<open>/home/u\<close> over \<open>fs_cache\<close>.\<close>

definition catalog_u :: targets where
  "catalog_u = projr (get_clean_targets ''Linux'' [''home'', ''u''] (\<lambda>v. None) fs_cache)"

text \<open>
  A home directory \<^verbatim>\<open>/home/u\<close> with a cache, and the directory
  \<^verbatim>\<open>/var/cache/apt/archives\<close> whose examination is refused: \<^verbatim>\<open>os.stat\<close> of it
  raises \<^verbatim>\<open>PermissionError\<close>, as it does below a directory that may not be searched.
\<close>

definition fs_refused :: entry where
  "fs_refused =
     Dir [] p_ok
       [Dir ''home'' p_ok [Dir ''u'' p_ok [Dir ''.cache'' p_ok [File ''log'' 20 p_ok]]],
        Dir ''var'' p_ok
          [Dir ''cache'' p_ok
             [Dir ''apt'' p_ok [Dir ''archives'' (p_ok\<lparr>stat_ok := False\<rparr>) []]]]]"

section \<open>Exceptions and sizes\<close>

lemma scandir_OSError: "scandir d = Inl e \<Longrightarrow> is_OSError e"
  by (induction d rule: scandir.induct) (auto simp: is_OSError_def split: if_splits)

lemma stat_size_OSError: "stat_size d = Inl e \<Longrightarrow> is_OSError e"
  by (auto simp: stat_size_def is_OSError_def split: option.splits if_splits)

lemma stat_size_File:
  "stat_size (File nm sz p) = (if stat_ok p then Inr sz else Inl PermissionError)"
  by (simp add: stat_size_def)

text \<open>
  The walk never raises: it returns the sum over the regular files it can read, for the
  loop on top of the total it has so far.
\<close>

lemma get_dir_size_sum:
  "get_dir_size d =
     Inr (case scandir d of Inl e \<Rightarrow> 0 | Inr es \<Rightarrow> sum_list (concat (map readable_files es)))"
  "get_dir_size_loop es t = Inr (t + sum_list (concat (map readable_files es)))"
proof (induction d and es t rule: get_dir_size_get_dir_size_loop.induct)
  case (1 path)
  then show ?case
    by (auto simp: get_dir_size.simps split: sum.splits dest: scandir_OSError)
next
  case (2 tot)
  then show ?case by simp
next
  case (3 entry entries tot)
  show ?case
  proof (cases entry)
    case (File nm sz p)
    then show ?thesis using 3 by (simp add: stat_size_File is_OSError_def)
  next
    case (Dir nm p es)
    then show ?thesis using 3 by simp
  next
    case (Link nm p t)
    then show ?thesis using 3 by simp
  qed
qed

text \<open>
  C3. For a directory, \<open>get_dir_size\<close> raises nothing and returns the sum of the sizes of
  the regular files reached without following symbolic links, leaving out only what
  cannot be listed or examined. Files of 100, 200 and 300 bytes give 600; with an
  unreadable subdirectory beside files of 100 and 300 bytes the result is 400, the
  readable part.
\<close>

theorem get_dir_size_readable:
  "get_dir_size (Dir nm p es) = Inr (sum_list (readable_files (Dir nm p es)))
   \<and> get_dir_size (Dir ''d'' p_ok
         [File ''a'' 100 p_ok, File ''b'' 200 p_ok, File ''c'' 300 p_ok]) = Inr 600
   \<and> get_dir_size (Dir ''d'' p_ok
         [File ''a'' 100 p_ok,
          Dir ''s'' (p_ok\<lparr>list_ok := False\<rparr>) [File ''x'' 7 p_ok],
          File ''c'' 300 p_ok]) = Inr 400"
  by (simp add: get_dir_size_sum(1) p_ok_def)

section \<open>Forced removal returns a boolean\<close>

lemma force_remove_Inr: "\<exists>b s. force_remove fd path = (Inr b, s)"
  by (auto simp: force_remove_def split: option.splits prod.splits sum.splits)

text \<open>
  C5. \<open>force_remove\<close> raises nothing and returns a boolean, whatever is at the path. When
  nothing is there it returns \<open>False\<close>. On a regular file whose read-only attribute is the
  only obstacle (the file can be examined, \<^verbatim>\<open>os.chmod\<close> is permitted, removal is otherwise
  permitted) \<^verbatim>\<open>os.chmod\<close> clears the attribute, the file is deleted and the result is
  \<open>True\<close>.
\<close>

theorem force_remove_total:
  "(\<exists>b s. force_remove fd path = (Inr b, s))
   \<and> force_remove fd None = (Inr False, None)
   \<and> (stat_ok p \<and> chmod_ok p \<and> del_ok p \<and> read_only p \<longrightarrow>
        os_chmod (File nm sz p) = Inr (File nm sz (p\<lparr>read_only := False\<rparr>))
        \<and> force_remove fd (Some (File nm sz p)) = (Inr True, None))"
  using force_remove_Inr [of fd path]
  by (simp add: force_remove_def force_remove_try_def is_file_def os_stat_def)

theorem force_remove_total_witness:
  "stat_ok (p_ok\<lparr>read_only := True\<rparr>) \<and> chmod_ok (p_ok\<lparr>read_only := True\<rparr>)
   \<and> del_ok (p_ok\<lparr>read_only := True\<rparr>) \<and> read_only (p_ok\<lparr>read_only := True\<rparr>)
   \<and> force_remove True None = (Inr False, None)
   \<and> force_remove True (Some (File ''f'' 10 (p_ok\<lparr>read_only := True\<rparr>))) = (Inr True, None)"
  using force_remove_total [of True None "p_ok\<lparr>read_only := True\<rparr>" "''f''" 10]
  by (simp add: p_ok_def)

section \<open>The catalog of each platform\<close>

lemma glob_cache2_cases:
  "(\<exists>x. exists_at fs root = Inl x \<and> glob_cache2 fs root = Inl x)
   \<or> (\<exists>b ps. exists_at fs root = Inr b \<and> glob_cache2 fs root = Inr ps)"
  by (cases "exists_at fs root") (simp_all add: glob_cache2_def)

lemma exists_at_Inl: "exists_at fs p = Inl x \<Longrightarrow> x = PermissionError"
  by (auto simp: exists_at_def path_exists_def os_stat_def ignore_error_def
           split: option.splits if_splits)

text \<open>
  C8. For \<open>Windows\<close>, \<open>Darwin\<close> and \<open>Linux\<close> (and for any other platform name, which is
  given the Linux entries), whatever the home directory, the environment and the file
  system, \<open>get_clean_targets\<close> either returns a catalog that is not empty and whose
  category names are pairwise distinct, or is left by the \<^verbatim>\<open>PermissionError\<close> of
  \<^verbatim>\<open>exists()\<close> on the directory of the Firefox profiles. It returns on \<open>Darwin\<close> always,
  and on \<open>Linux\<close> and \<open>Windows\<close> exactly when the examination of that directory is not
  refused.
\<close>

theorem get_clean_targets_names:
  "(case get_clean_targets os home env fs of
      Inl x \<Rightarrow> x = PermissionError
    | Inr targets \<Rightarrow> targets \<noteq> [] \<and> distinct (map fst targets))
   \<and> (\<exists>targets. get_clean_targets ''Darwin'' home env fs = Inr targets)
   \<and> (\<exists>targets. get_clean_targets ''Linux'' home env fs = Inr targets)
       = (\<exists>b. exists_at fs (home @ [''.mozilla'', ''firefox'']) = Inr b)
   \<and> (\<exists>targets. get_clean_targets ''Windows'' home env fs = Inr targets)
       = (\<exists>b. exists_at fs
                 (env_path env ''LOCALAPPDATA'' (home @ [''AppData'', ''Local''])
                    @ [''Mozilla'', ''Firefox'', ''Profiles'']) = Inr b)"
proof -
  have a: "case get_clean_targets os home env fs of
      Inl x \<Rightarrow> x = PermissionError
    | Inr targets \<Rightarrow> targets \<noteq> [] \<and> distinct (map fst targets)"
    using glob_cache2_cases [of fs "home @ [''.mozilla'', ''firefox'']"]
      glob_cache2_cases [of fs "env_path env ''LOCALAPPDATA'' (home @ [''AppData'', ''Local''])
                    @ [''Mozilla'', ''Firefox'', ''Profiles'']"]
      exists_at_Inl [of fs]
    by (auto simp: get_clean_targets_def Let_def)
  have b: "\<exists>targets. get_clean_targets ''Darwin'' home env fs = Inr targets"
    by (simp add: get_clean_targets_def)
  have c: "(\<exists>targets. get_clean_targets ''Linux'' home env fs = Inr targets)
       = (\<exists>b. exists_at fs (home @ [''.mozilla'', ''firefox'']) = Inr b)"
    using glob_cache2_cases [of fs "home @ [''.mozilla'', ''firefox'']"]
    by (auto simp: get_clean_targets_def)
  have d: "(\<exists>targets. get_clean_targets ''Windows'' home env fs = Inr targets)
       = (\<exists>b. exists_at fs
                 (env_path env ''LOCALAPPDATA'' (home @ [''AppData'', ''Local''])
                    @ [''Mozilla'', ''Firefox'', ''Profiles'']) = Inr b)"
    using glob_cache2_cases [of fs "env_path env ''LOCALAPPDATA'' (home @ [''AppData'', ''Local''])
                    @ [''Mozilla'', ''Firefox'', ''Profiles'']"]
    by (auto simp: get_clean_targets_def Let_def)
  show ?thesis using a b c d by blast
qed

section \<open>A candidate that is a regular file\<close>

lemma store_lookup_id:
  "lookup fs p = Some e \<Longrightarrow> store fs p e = fs"
  "(case find_entry c es of None \<Rightarrow> None | Some k \<Rightarrow> lookup k cs) = Some e
     \<Longrightarrow> store_in es c cs e = es"
  by (induction fs p e and es c cs e rule: store_store_in.induct)
     (auto split: option.splits if_splits)

lemma get_dir_size_File: "get_dir_size (File nm sz q) = Inr 0"
  by (simp add: get_dir_size_sum(1))

lemma clean_directory_contents_File:
  "stat_ok q \<Longrightarrow>
     clean_directory_contents fd (Some (File nm sz q)) ds = (Inr (0, 1, 0), Some (File nm sz q))"
  by (simp add: clean_directory_contents_def path_exists_def os_stat_def is_OSError_def)

text \<open>
  C9. When a candidate path denotes a regular file that can be examined, the path
  exists for \<open>scan\<close> and \<open>clean\<close>; \<open>get_dir_size\<close> of it is 0 (the listing fails with
  \<open>NotADirectoryError\<close>, which is swallowed), so the scan of the path adds 0 bytes to the
  size of its category and marks the category as existing; \<open>clean_directory_contents\<close>
  on it returns freed = 0, errors = 1, items = 0 and leaves the file system as it was, so
  the clean of the path adds 0, 1 and 0 to the counters of its category.
\<close>

theorem regular_file_candidate:
  "lookup fs p = Some (File nm sz q) \<Longrightarrow> stat_ok q \<Longrightarrow>
     exists_at fs p = Inr True
   \<and> get_dir_size (File nm sz q) = Inr 0
   \<and> scan_paths fs [p] (cat_size, ex) = Inr (cat_size + 0, True)
   \<and> clean_at fd fs p = (Inr (0, 1, 0), fs)
   \<and> clean_paths fd fs [p] (freed, errors, items) = (Inr (freed + 0, errors + 1, items + 0), fs)"
  by (simp add: exists_at_def path_exists_def os_stat_def get_dir_size_File clean_at_def
        clean_directory_contents_File store_lookup_id(1))

theorem regular_file_candidate_witness:
  "lookup fs_xbel [''home'', ''u'', ''.local'', ''share'', ''recently-used.xbel'']
     = Some (File ''recently-used.xbel'' 2048 p_ok)
   \<and> stat_ok p_ok
   \<and> scan_paths fs_xbel [[''home'', ''u'', ''.local'', ''share'', ''recently-used.xbel'']] (0, False)
       = Inr (0, True)
   \<and> clean_paths True fs_xbel [[''home'', ''u'', ''.local'', ''share'', ''recently-used.xbel'']]
         (0, 0, 0)
       = (Inr (0, 1, 0), fs_xbel)"
proof -
  have l: "lookup fs_xbel [''home'', ''u'', ''.local'', ''share'', ''recently-used.xbel'']
     = Some (File ''recently-used.xbel'' 2048 p_ok)"
    by (simp add: fs_xbel_def)
  have s: "stat_ok p_ok" by (simp add: p_ok_def)
  show ?thesis
    using l s regular_file_candidate [OF l s, of 0 False True 0 0 0] by simp
qed

section \<open>The event stream\<close>

text \<open>
  The events of the categories come first and none of them is terminal; when no
  exception ends the loop there is one for every category and the totals are the sums
  over them.
\<close>

lemma clean_categories_shape:
  "\<exists>cat r fs1. clean_categories fd fs targets (tf, te) = (cat, r, fs1)
     \<and> filter is_done cat = [] \<and> length cat \<le> length targets
     \<and> (case r of
          Inl x \<Rightarrow> True
        | Inr t \<Rightarrow> length cat = length targets
            \<and> t = (tf + sum_list (map ev_freed cat), te + sum_list (map ev_errors cat)))"
proof (induction targets arbitrary: fs tf te)
  case Nil
  then show ?case by simp
next
  case (Cons t targets)
  obtain category paths where t: "t = (category, paths)" by (cases t)
  obtain r0 fs1 where a0: "clean_paths fd fs paths (0, 0, 0) = (r0, fs1)"
    by (cases "clean_paths fd fs paths (0, 0, 0)")
  show ?case
  proof (cases r0)
    case (Inl x)
    then show ?thesis using a0 t by simp
  next
    case (Inr c1)
    obtain freed errors ir where c1: "c1 = (freed, errors, ir)" by (cases c1 rule: prod_cases3)
    obtain cat r fs2 where
      b: "clean_categories fd fs1 targets (tf + freed, te + errors) = (cat, r, fs2)"
      and nd: "filter is_done cat = []" and le: "length cat \<le> length targets"
      and rr: "(case r of
          Inl x \<Rightarrow> True
        | Inr t \<Rightarrow> length cat = length targets
            \<and> t = (tf + freed + sum_list (map ev_freed cat),
                   te + errors + sum_list (map ev_errors cat)))"
      using Cons.IH [of fs1 "tf + freed" "te + errors"] by blast
    show ?thesis
      using rr
      by (intro exI [of _ "CleanEvent category freed ir errors # cat"] exI [of _ r] exI [of _ fs2])
         (simp add: t a0 Inr c1 b nd le add.assoc split: sum.splits)
  qed
qed

lemma maintenance_not_done: "filter is_done (maintenance os runs) = []"
  by (simp add: maintenance_def)

lemma maintenance_counts:
  "map (\<lambda>ev. (ev_freed ev, ev_items ev, ev_errors ev)) (maintenance os runs)
     = replicate (length (maintenance os runs)) (0, 1, 0)"
  by (simp add: maintenance_def)

lemma generate_shape:
  "\<exists>cat fs1.
     filter is_done cat = [] \<and> length cat \<le> length targets
     \<and> ((\<exists>x. generate fd os runs targets fs = (cat, Some x, fs1))
        \<or> (length cat = length targets
            \<and> generate fd os runs targets fs =
               (cat @ maintenance os runs
                    @ [DoneEvent (sum_list (map ev_freed cat)) (sum_list (map ev_errors cat))],
                None, fs1)))"
proof -
  obtain cat r fs1 where a: "clean_categories fd fs targets (0, 0) = (cat, r, fs1)"
    and nd: "filter is_done cat = []" and le: "length cat \<le> length targets"
    and rr: "(case r of
          Inl x \<Rightarrow> True
        | Inr t \<Rightarrow> length cat = length targets
            \<and> t = (0 + sum_list (map ev_freed cat), 0 + sum_list (map ev_errors cat)))"
    using clean_categories_shape [of fd fs targets 0 0] by blast
  show ?thesis
    using rr
    by (intro exI [of _ cat] exI [of _ fs1])
       (auto simp: generate_def a nd le split: sum.splits)
qed

text \<open>
  C10. Every maintenance event carries freed = 0, items = 1 and errors = 0 and is a
  \<open>CleanEvent\<close>. The events of a pass are the per-category events and, unless an
  exception has ended the pass before, the maintenance events and then the \<open>DoneEvent\<close>,
  whose \<open>total_freed\<close> and \<open>errors\<close> are the sums of the \<open>freed\<close> and \<open>errors\<close> of the
  per-category events alone.
\<close>

theorem maintenance_events:
  "map (\<lambda>ev. (ev_freed ev, ev_items ev, ev_errors ev)) (maintenance os runs)
     = replicate (length (maintenance os runs)) (0, 1, 0)
   \<and> filter is_done (maintenance os runs) = []
   \<and> fst (generate fd os runs targets fs)
       = take (length targets) (fst (generate fd os runs targets fs))
         @ (case fst (snd (generate fd os runs targets fs)) of
              Some x \<Rightarrow> []
            | None \<Rightarrow>
                maintenance os runs
                @ [DoneEvent
                     (sum_list (map ev_freed
                        (take (length targets) (fst (generate fd os runs targets fs)))))
                     (sum_list (map ev_errors
                        (take (length targets) (fst (generate fd os runs targets fs)))))])"
proof -
  obtain cat fs1 where le: "length cat \<le> length targets"
    and g: "(\<exists>x. generate fd os runs targets fs = (cat, Some x, fs1))
        \<or> (length cat = length targets
            \<and> generate fd os runs targets fs =
               (cat @ maintenance os runs
                    @ [DoneEvent (sum_list (map ev_freed cat)) (sum_list (map ev_errors cat))],
                None, fs1))"
    using generate_shape [of targets fd os runs fs] by blast
  from g show ?thesis
  proof
    assume "\<exists>x. generate fd os runs targets fs = (cat, Some x, fs1)"
    then show ?thesis using le by (auto simp: maintenance_not_done maintenance_counts)
  next
    assume "length cat = length targets
            \<and> generate fd os runs targets fs =
               (cat @ maintenance os runs
                    @ [DoneEvent (sum_list (map ev_freed cat)) (sum_list (map ev_errors cat))],
                None, fs1)"
    then show ?thesis by (simp add: maintenance_not_done maintenance_counts)
  qed
qed

section \<open>A subdirectory that cannot be opened\<close>

lemmas eval_defs =
  clean_def generate_def get_clean_targets_def glob_cache2_def
  p_ok_def exists_at_def is_dir_at_def path_exists_def os_stat_def ignore_error_def clean_at_def
  clean_directory_contents_def clean_item_def count_removal_def force_remove_def
  force_remove_try_def is_dir_def is_file_def is_symlink_def stat_size_def
  get_dir_size_sum(1) onerror_def rmdir_step_def unlink_step_def is_OSError_def

text \<open>
  C1. The scenario of the specification, evaluated. For the catalog
  \<^verbatim>\<open>{"Temp": ["/tmp/x"]}\<close> over \<open>fs_locked\<close>, on either variant of \<^verbatim>\<open>shutil.rmtree\<close>,
  \<open>force_remove\<close> returns \<open>True\<close> for \<^verbatim>\<open>locked\<close> although the directory is still there,
  so the pass yields the \<open>CleanEvent\<close> of \<open>Temp\<close> with freed = 1500, items = 4 and
  errors = 0, the maintenance events, and the \<open>DoneEvent\<close> with total_freed = 1500 and
  errors = 0; \<^verbatim>\<open>/tmp/x\<close> still holds \<^verbatim>\<open>locked\<close> afterwards.
\<close>

theorem locked_subdirectory_counted:
  "force_remove fd (Some (Dir ''locked'' (p_ok\<lparr>list_ok := False\<rparr>) [File ''secret'' 42 p_ok]))
     = (Inr True, Some (Dir ''locked'' (p_ok\<lparr>list_ok := False\<rparr>) [File ''secret'' 42 p_ok]))
   \<and> generate fd os runs [(''Temp'', [[''tmp'', ''x'']])] fs_locked
     = (CleanEvent ''Temp'' 1500 4 0 # maintenance os runs @ [DoneEvent 1500 0],
        None,
        Dir [] p_ok [Dir ''tmp'' p_ok [Dir ''x'' p_ok
          [Dir ''locked'' (p_ok\<lparr>list_ok := False\<rparr>) [File ''secret'' 42 p_ok]]]])"
  by (cases fd) (simp_all add: fs_locked_def eval_defs)

text \<open>
  C7. The same scenario, repeated. The first pass reports errors = 0 for its only
  category. A second pass over the file system the first one left reports freed = 0 and
  errors = 0 but items = 1: \<^verbatim>\<open>locked\<close>, still there, is counted as removed once more.
\<close>

theorem repeated_pass_counts_again:
  "ev_errors (hd (fst (generate fd os runs [(''Temp'', [[''tmp'', ''x'']])] fs_locked))) = 0
   \<and> generate fd os runs [(''Temp'', [[''tmp'', ''x'']])]
        (snd (snd (generate fd os runs [(''Temp'', [[''tmp'', ''x'']])] fs_locked)))
     = (CleanEvent ''Temp'' 0 1 0 # maintenance os runs @ [DoneEvent 0 0],
        None,
        Dir [] p_ok [Dir ''tmp'' p_ok [Dir ''x'' p_ok
          [Dir ''locked'' (p_ok\<lparr>list_ok := False\<rparr>) [File ''secret'' 42 p_ok]]]])"
  by (cases fd) (simp_all add: fs_locked_def eval_defs)

section \<open>A candidate whose examination is refused\<close>

text \<open>
  C2. A pass over \<open>fs_refused\<close> with the Linux catalog of the home directory
  \<^verbatim>\<open>/home/u\<close>, evaluated. \<^verbatim>\<open>pp.exists()\<close> stands in no \<^verbatim>\<open>try\<close>: at the candidate
  \<^verbatim>\<open>/var/cache/apt/archives\<close> of the ninth category it raises \<^verbatim>\<open>PermissionError\<close>,
  which leaves the generator after the events of the first eight categories. No event
  for the remaining categories follows and no \<open>DoneEvent\<close> is yielded.
\<close>

theorem refused_candidate_ends_stream:
  "exists_at fs_refused [''var'', ''cache'', ''apt'', ''archives''] = Inl PermissionError
   \<and> clean fd ''Linux'' runs [''home'', ''u''] env fs_refused
     = ([CleanEvent ''User Cache'' 20 1 0, CleanEvent ''Temporary Files'' 0 0 0,
         CleanEvent ''System Logs'' 0 0 0, CleanEvent ''User Logs'' 0 0 0,
         CleanEvent ''Thumbnail Cache'' 0 0 0, CleanEvent ''Chrome Cache'' 0 0 0,
         CleanEvent ''Firefox Cache'' 0 0 0, CleanEvent ''pip Cache'' 0 0 0],
        Some PermissionError,
        Dir [] p_ok
          [Dir ''home'' p_ok [Dir ''u'' p_ok [Dir ''.cache'' p_ok []]],
           Dir ''var'' p_ok
             [Dir ''cache'' p_ok
                [Dir ''apt'' p_ok [Dir ''archives'' (p_ok\<lparr>stat_ok := False\<rparr>) []]]]])
   \<and> filter is_done (fst (clean fd ''Linux'' runs [''home'', ''u''] env fs_refused)) = []"
  by (cases fd) (simp_all add: fs_refused_def eval_defs)

section \<open>The scan report\<close>

lemma exists_at_cases:
  "exists_at fs p = Inr True \<or> exists_at fs p = Inr False \<or> exists_at fs p = Inl PermissionError"
  using exists_at_Inl [of fs p] by (cases "exists_at fs p") auto

lemma scan_paths_eq:
  "scan_paths fs ps acc =
     (if list_ex (refused fs) ps then Inl PermissionError
      else Inr (fst acc + spec_category_size fs ps,
                snd acc \<or> list_ex (\<lambda>p. exists_at fs p = Inr True) ps))"
proof (induction ps arbitrary: acc)
  case Nil
  then show ?case by (simp add: spec_category_size_def)
next
  case (Cons p ps)
  show ?case
  proof (cases "lookup fs p")
    case None
    then show ?thesis using Cons [of acc]
      by (simp add: spec_category_size_def exists_at_def refused_def)
  next
    case (Some pp)
    consider (t) "path_exists pp = Inr True" | (f) "path_exists pp = Inr False"
      | (e) "path_exists pp = Inl PermissionError"
      using exists_at_cases [of fs p] Some by (auto simp: exists_at_def)
    then show ?thesis
    proof cases
      case t
      then show ?thesis using Some Cons [of "(fst acc + spec_path_size fs p, True)"]
        by (simp add: spec_category_size_def exists_at_def refused_def spec_path_size_def
              get_dir_size_sum(1))
    next
      case f
      then show ?thesis using Some Cons [of acc]
        by (simp add: spec_category_size_def exists_at_def refused_def)
    next
      case e
      then show ?thesis using Some
        by (simp add: exists_at_def refused_def)
    qed
  qed
qed

lemma scan_categories_eq:
  "scan_categories fs targets acc =
     (if list_ex (refused fs) (concat (map snd targets)) then Inl PermissionError
      else Inr (fst acc @ spec_results fs targets,
                snd acc + sum_list (map sr_size (spec_results fs targets))))"
proof (induction targets arbitrary: acc)
  case Nil
  then show ?case by (simp add: spec_results_def spec_included_def)
next
  case (Cons t targets)
  obtain category paths where t: "t = (category, paths)" by (cases t)
  show ?case
    using Cons [of acc]
      Cons [of "(fst acc @ [\<lparr>sr_category = category, sr_size = spec_category_size fs paths,
                            sr_paths = paths\<rparr>],
                 snd acc + spec_category_size fs paths)"]
    by (simp add: t scan_paths_eq spec_results_def spec_included_def)
qed

lemma sum_list_insort_key:
  "sum_list (map g (insort_key f x xs)) = g x + sum_list (map (g :: 'a \<Rightarrow> nat) xs)"
  by (induction xs) simp_all

lemma sum_list_sort_key:
  "sum_list (map g (sort_key f xs)) = sum_list (map (g :: 'a \<Rightarrow> nat) xs)"
  by (induction xs) (simp_all add: sum_list_insort_key)

lemma sort_by_size_desc_sorted:
  "sorted_wrt (\<lambda>a b. sr_size b \<le> sr_size a) (sort_by_size_desc rs)"
proof -
  have "sorted (map (\<lambda>x. - int (sr_size x)) (sort_by_size_desc rs))"
    unfolding sort_by_size_desc_def by (rule sorted_sort_key)
  then show ?thesis by (simp add: sorted_map)
qed

lemma sort_by_size_desc_stable:
  "filter (\<lambda>r. sr_size r = k) (sort_by_size_desc rs) = filter (\<lambda>r. sr_size r = k) rs"
  using sort_key_stable [of "\<lambda>x. - int (sr_size x)" "- int k" rs]
  by (simp add: sort_by_size_desc_def)

lemma spec_results_categories:
  "(c \<in> set (map sr_category (spec_results fs targets)))
     = (\<exists>ps. (c, ps) \<in> set targets \<and> list_ex (\<lambda>p. exists_at fs p = Inr True) ps)"
  by (force simp: spec_results_def spec_included_def image_iff)

text \<open>
  C4. A scan over a catalog is left by \<^verbatim>\<open>PermissionError\<close> exactly when the examination
  of one of the candidate paths is refused, and returns a report otherwise. In the
  report a category name occurs if and only if the catalog has a category of that name
  with a candidate path that exists; the categories are in order of non-increasing
  size; the categories of any one size \<open>k\<close> are those of the specification's reading,
  in catalog order; the grand total is the sum of the sizes of the categories in the
  report. \<open>scan\<close> is \<open>scan_targets\<close> at the catalog of the platform.
\<close>

theorem scan_report:
  "(case scan_targets os targets fs of
      Inl x \<Rightarrow> x = PermissionError \<and> list_ex (refused fs) (concat (map snd targets))
    | Inr rep \<Rightarrow>
        \<not> list_ex (refused fs) (concat (map snd targets))
        \<and> (c \<in> set (map sr_category (rp_categories rep)))
            = (\<exists>ps. (c, ps) \<in> set targets \<and> list_ex (\<lambda>p. exists_at fs p = Inr True) ps)
        \<and> sorted_wrt (\<lambda>a b. sr_size b \<le> sr_size a) (rp_categories rep)
        \<and> filter (\<lambda>r. sr_size r = k) (rp_categories rep)
            = filter (\<lambda>r. sr_size r = k) (spec_results fs targets)
        \<and> rp_total rep = sum_list (map sr_size (rp_categories rep))
        \<and> rp_os rep = os)"
proof (cases "list_ex (refused fs) (concat (map snd targets))")
  case True
  then show ?thesis by (simp add: scan_targets_def scan_categories_eq)
next
  case False
  have a: "scan_targets os targets fs =
     Inr \<lparr>rp_total = sum_list (map sr_size (spec_results fs targets)),
          rp_categories = sort_by_size_desc (spec_results fs targets), rp_os = os\<rparr>"
    using False by (simp add: scan_targets_def scan_categories_eq)
  have b: "set (sort_by_size_desc (spec_results fs targets)) = set (spec_results fs targets)"
    by (simp add: sort_by_size_desc_def)
  have c: "(c \<in> set (map sr_category (sort_by_size_desc (spec_results fs targets))))
         = (\<exists>ps. (c, ps) \<in> set targets \<and> list_ex (\<lambda>p. exists_at fs p = Inr True) ps)"
    using spec_results_categories [of c fs targets] by (simp add: b)
  have d: "sum_list (map sr_size (sort_by_size_desc (spec_results fs targets)))
       = sum_list (map sr_size (spec_results fs targets))"
    by (simp add: sort_by_size_desc_def sum_list_sort_key)
  show ?thesis
    unfolding a using False c d sort_by_size_desc_sorted sort_by_size_desc_stable by simp
qed

text \<open>A report with two categories out of three, and a scan that a refusal ends.\<close>

lemma scan_targets_example:
  "scan_targets ''Linux''
     [(''Cache'', [[''home'', ''u'', ''.cache'']]), (''Missing'', [[''home'', ''w'']]),
      (''Docs'', [[''home'', ''u'', ''docs''], [''home'', ''u'', ''papers'']])] fs_cache
   = Inr \<lparr>rp_total = 1320,
          rp_categories =
            [\<lparr>sr_category = ''Docs'', sr_size = 1000,
              sr_paths = [[''home'', ''u'', ''docs''], [''home'', ''u'', ''papers'']]\<rparr>,
             \<lparr>sr_category = ''Cache'', sr_size = 320, sr_paths = [[''home'', ''u'', ''.cache'']]\<rparr>],
          rp_os = ''Linux''\<rparr>
   \<and> scan_targets ''Linux'' [(''apt Cache'', [[''var'', ''cache'', ''apt'', ''archives'']])] fs_refused
   = Inl PermissionError"
  by (simp add: scan_targets_def fs_cache_def fs_refused_def p_ok_def path_exists_def os_stat_def
        ignore_error_def get_dir_size_sum(1) sort_by_size_desc_def)

section \<open>What a pass leaves of a candidate directory\<close>














lemma catalog_u_eq:
  "get_clean_targets ''Linux'' [''home'', ''u''] (\<lambda>v. None) fs_cache = Inr catalog_u"
  by (simp add: catalog_u_def get_clean_targets_def glob_cache2_def exists_at_def fs_cache_def)




end
